theory Spec2Isabelle
  imports Main "HOL-Library.Word" "HOL-Library.Signed_Division"
begin

section \<open>GStreamer and Rerun values seen by the sink\<close>

text \<open>
  The element is the C++ file of the plugin (\<open>gst_rerun_sink_render\<close> and the functions
  it calls, \<open>gst_rerun_sink_start\<close>, \<open>gst_rerun_sink_stop\<close>). GStreamer, the NVIDIA
  buffer API and the Rerun SDK are external: what their calls return is part of the
  input (a buffer says whether it maps, a surface says whether it maps and syncs, the
  environment says whether save, connect and spawn fail), and the calls the element makes
  on a recording stream are written to a log kept beside the element's private data.
\<close>

type_synonym byte = "8 word"

datatype GstFlowReturn = GST_FLOW_OK | GST_FLOW_ERROR | GST_FLOW_NOT_NEGOTIATED

text \<open>\<open>GstVideoFormat\<close>: the five formats the element names, and any other enum value.\<close>

datatype GstVideoFormat =
    GST_VIDEO_FORMAT_RGB
  | GST_VIDEO_FORMAT_RGBA
  | GST_VIDEO_FORMAT_GRAY8
  | GST_VIDEO_FORMAT_NV12
  | GST_VIDEO_FORMAT_I420
  | GST_VIDEO_FORMAT_OTHER nat

record GstVideoInfo =
  finfo_format :: GstVideoFormat
  info_width :: int
  info_height :: int

datatype GValue = GInt int | GString string

record GstStructure =
  struct_name :: string
  struct_fields :: "(string \<times> GValue) list"

text \<open>
  Caps as the element reads them: structure 0 (absent when the caps hold none) and the
  result of \<open>gst_video_info_from_caps\<close> on them (\<open>None\<close> when it returns FALSE).
\<close>

record GstCaps =
  caps_structure :: "GstStructure option"
  caps_video_info :: "GstVideoInfo option"

text \<open>
  \<open>gst_structure_get_int (structure, field, &v)\<close> writes \<open>v\<close> only when the field exists
  and holds an int; the model returns the value of \<open>v\<close> after the call.
\<close>

definition gst_structure_get_int :: "GstStructure option \<Rightarrow> string \<Rightarrow> int \<Rightarrow> int" where
  "gst_structure_get_int structure field v =
     (case structure of
        None \<Rightarrow> v
      | Some s \<Rightarrow>
          (case map_of (struct_fields s) field of
             Some (GInt n) \<Rightarrow> n
           | _ \<Rightarrow> v))"

text \<open>
  An \<open>NvBufSurface\<close> (entry 0 of its surface list): whether \<open>NvBufSurfaceMap\<close> and
  \<open>NvBufSurfaceSyncForCpu\<close> return 0, the two mapped plane pointers (\<open>None\<close> is the
  null pointer, otherwise the bytes readable from the pointer on), and the
  \<open>uint32_t\<close> geometry. The plane sizes \<open>psize\<close> only feed the local \<open>buffer_size\<close>,
  which the function never reads, so they are left out.
\<close>

record NvBufSurface =
  surf_map_ok :: bool
  surf_sync_ok :: bool
  mappedAddr0 :: "byte list option"
  mappedAddr1 :: "byte list option"
  surf_width :: "32 word"
  surf_height :: "32 word"
  pitch0 :: "32 word"
  pitch1 :: "32 word"

datatype GstMemory = GstMemory (allocator: "string option")

text \<open>
  A buffer: its first memory (\<open>gst_buffer_peek_memory (buffer, 0)\<close>, with the name of
  its allocator), whether \<open>gst_buffer_map\<close> succeeds, the mapped bytes
  (\<open>map.data\<close> .. \<open>map.data + map.size\<close>), the surface \<open>map.data\<close> points to when it
  is read as an \<open>NvBufSurface*\<close> (\<open>None\<close> when \<open>map.data\<close> is null), and the decode
  timestamp.
\<close>

record GstBuffer =
  buf_memory :: "GstMemory option"
  buf_map_ok :: bool
  buf_data :: "byte list"
  buf_surface :: "NvBufSurface option"
  buf_dts :: "64 word"

datatype PixelFormat = NV12 | Y_U_V12_LimitedRange

datatype ImageFormat = RGB24 | RGBA32 | L8 | Pixel PixelFormat

text \<open>
  \<open>rerun::archetypes::Image\<close>: the default-constructed image, or a buffer with a
  resolution (\<open>rerun::WidthHeight\<close> holds two \<open>uint32_t\<close>) and a format.
\<close>

datatype Image =
    EmptyImage
  | Image (image_bytes: "byte list") (image_width: "32 word") (image_height: "32 word")
      (image_format: ImageFormat)

datatype VideoCodec = H264 | H265

text \<open>
  The calls made on a \<open>rerun::RecordingStream\<close>. The codec of a video stream descriptor is
  \<open>None\<close> when the local variable \<open>codec\<close> was read without having been assigned.
\<close>

datatype rerun_call =
    Save string
  | ConnectGrpc string
  | Spawn
  | LogImage string Image
  | LogStaticCodec string "VideoCodec option"
  | SetTimeTimestamp string "64 word"
  | LogSample string "byte list"

text \<open>
  \<open>GstRerunSinkPrivate\<close>. \<open>rec_stream\<close> is a handle (\<open>None\<close> is \<open>nullptr\<close>). The last
  three fields are the state of the Rerun library: the recording streams allocated by
  \<open>new\<close> and not yet deleted (with their recording id), the next fresh handle, and the
  calls made on recording streams, oldest first.
\<close>

record GstRerunSinkPrivate =
  rec_stream :: "nat option"
  rerun_initialized :: bool
  recording_id :: "string option"
  image_path :: "string option"
  video_path :: "string option"
  spawn_viewer :: bool
  output_file :: "string option"
  grpc_address :: "string option"
  codec_sent :: bool
  streams :: "(nat \<times> string) list"
  next_handle :: nat
  calls :: "rerun_call list"

definition DEFAULT_GRPC_ADDRESS :: string where
  "DEFAULT_GRPC_ADDRESS = ''127.0.0.1:9876''"

definition gst_rerun_sink_init :: GstRerunSinkPrivate where
  "gst_rerun_sink_init =
     \<lparr> rec_stream = None, rerun_initialized = False, recording_id = None,
       image_path = None, video_path = None, spawn_viewer = True, output_file = None,
       grpc_address = Some DEFAULT_GRPC_ADDRESS, codec_sent = False,
       streams = [], next_handle = 0, calls = [] \<rparr>"

definition log_call :: "rerun_call \<Rightarrow> GstRerunSinkPrivate \<Rightarrow> GstRerunSinkPrivate" where
  "log_call c priv = priv\<lparr>calls := calls priv @ [c]\<rparr>"

text \<open>\<open>priv->rec_stream = new rerun::RecordingStream (rec_id)\<close>.\<close>

definition new_rec_stream :: "string \<Rightarrow> GstRerunSinkPrivate \<Rightarrow> GstRerunSinkPrivate" where
  "new_rec_stream rec_id priv =
     priv\<lparr>rec_stream := Some (next_handle priv),
          streams := (next_handle priv, rec_id) # streams priv,
          next_handle := Suc (next_handle priv)\<rparr>"

text \<open>\<open>delete priv->rec_stream; priv->rec_stream = nullptr\<close>.\<close>

definition delete_rec_stream :: "GstRerunSinkPrivate \<Rightarrow> GstRerunSinkPrivate" where
  "delete_rec_stream priv =
     priv\<lparr>streams := filter (\<lambda>(h, _). Some h \<noteq> rec_stream priv) (streams priv),
          rec_stream := None\<rparr>"

section \<open>Classification\<close>

definition is_encoded_format :: "GstCaps option \<Rightarrow> bool" where
  "is_encoded_format caps =
     (case caps of
        None \<Rightarrow> False
      | Some c \<Rightarrow>
          (case caps_structure c of
             None \<Rightarrow> False
           | Some structure \<Rightarrow>
               struct_name structure = ''video/x-h264'' \<or>
               struct_name structure = ''video/x-h265''))"

definition is_nvmm_memory :: "GstBuffer \<Rightarrow> bool" where
  "is_nvmm_memory buffer =
     (case buf_memory buffer of
        None \<Rightarrow> False
      | Some memory \<Rightarrow>
          (case allocator memory of
             None \<Rightarrow> False
           | Some allocator_name \<Rightarrow>
               allocator_name = ''nvfiltermemoryallocator0'' \<or>
               allocator_name = ''nvdsmemoryallocator0''))"

section \<open>The encoded route\<close>

text \<open>The value of the local \<open>codec\<close> after the two name tests.\<close>

definition codec_of_name :: "string option \<Rightarrow> VideoCodec option" where
  "codec_of_name format_name =
     (if format_name = Some ''video/x-h264'' then Some H264
      else if format_name = Some ''video/x-h265'' then Some H265
      else None)"

definition process_encoded_video ::
  "GstRerunSinkPrivate \<Rightarrow> GstBuffer \<Rightarrow> GstCaps \<Rightarrow> GstFlowReturn \<times> GstRerunSinkPrivate" where
  "process_encoded_video priv buffer caps =
     (if \<not> rerun_initialized priv \<or> rec_stream priv = None \<or> video_path priv = None
      then (GST_FLOW_OK, priv)
      else
        let structure = caps_structure caps;
            format_name = map_option struct_name structure;
            width = gst_structure_get_int structure ''width'' 0
        in if width = 0 then (GST_FLOW_ERROR, priv)
           else
             let height = gst_structure_get_int structure ''height'' 0
             in if height = 0 then (GST_FLOW_ERROR, priv)
                else
                  let codec = codec_of_name format_name;
                      priv1 =
                        (if \<not> codec_sent priv
                         then (log_call (LogStaticCodec (the (video_path priv)) codec) priv)
                                \<lparr>codec_sent := True\<rparr>
                         else priv)
                  in if \<not> buf_map_ok buffer then (GST_FLOW_ERROR, priv1)
                     else
                       (GST_FLOW_OK,
                        log_call (LogSample (the (video_path priv1)) (buf_data buffer))
                          (log_call (SetTimeTimestamp ''time'' (buf_dts buffer)) priv1)))"

section \<open>The host route\<close>

definition create_image_from_format ::
  "byte list \<Rightarrow> GstVideoFormat \<Rightarrow> int \<Rightarrow> int \<Rightarrow> Image" where
  "create_image_from_format raw_data format width height =
     (case format of
        GST_VIDEO_FORMAT_RGB \<Rightarrow> Image raw_data (of_int width) (of_int height) RGB24
      | GST_VIDEO_FORMAT_RGBA \<Rightarrow> Image raw_data (of_int width) (of_int height) RGBA32
      | GST_VIDEO_FORMAT_GRAY8 \<Rightarrow> Image raw_data (of_int width) (of_int height) L8
      | GST_VIDEO_FORMAT_NV12 \<Rightarrow> Image raw_data (of_int width) (of_int height) (Pixel NV12)
      | GST_VIDEO_FORMAT_I420 \<Rightarrow>
          Image raw_data (of_int width) (of_int height) (Pixel Y_U_V12_LimitedRange)
      | GST_VIDEO_FORMAT_OTHER _ \<Rightarrow> EmptyImage)"

text \<open>
  The image is passed by reference (\<open>img\<close>): the function returns its value at exit. On a map
  failure it is the caller's image, untouched.
\<close>

definition process_regular_buffer ::
  "GstBuffer \<Rightarrow> GstVideoInfo \<Rightarrow> Image \<Rightarrow> GstFlowReturn \<times> Image" where
  "process_regular_buffer buffer info img =
     (if \<not> buf_map_ok buffer then (GST_FLOW_ERROR, img)
      else
        let raw_data = buf_data buffer;
            width = info_width info;
            height = info_height info;
            img' = create_image_from_format raw_data (finfo_format info) width height
        in if finfo_format info \<noteq> GST_VIDEO_FORMAT_RGB \<and>
              finfo_format info \<noteq> GST_VIDEO_FORMAT_RGBA \<and>
              finfo_format info \<noteq> GST_VIDEO_FORMAT_GRAY8 \<and>
              finfo_format info \<noteq> GST_VIDEO_FORMAT_NV12 \<and>
              finfo_format info \<noteq> GST_VIDEO_FORMAT_I420
           then (GST_FLOW_NOT_NEGOTIATED, img')
           else (GST_FLOW_OK, img'))"

section \<open>The device route\<close>

text \<open>
  Reading \<open>[ptr + from, ptr + to)\<close> from a mapped plane. A read outside the plane is
  undefined behaviour in the source; the model stops with \<open>None\<close> there.
\<close>

definition read_range :: "byte list \<Rightarrow> int \<Rightarrow> int \<Rightarrow> byte list option" where
  "read_range ptr from to =
     (if 0 \<le> from \<and> from \<le> to \<and> to \<le> int (length ptr)
      then Some (take (nat (to - from)) (drop (nat from) ptr))
      else None)"

text \<open>The range of \<open>gint\<close>: the product \<open>i * pitch\<close> is signed 32-bit arithmetic.\<close>

definition in_gint :: "int \<Rightarrow> bool" where
  "in_gint x = (- (2 ^ 31) \<le> x \<and> x < 2 ^ 31)"

text \<open>
  \<open>for (int i = ...; i < n; ++i) raw_data.insert (raw_data.end (), ptr + i * pitch,
  ptr + i * pitch + width)\<close>, from the current \<open>i\<close> and \<open>raw_data\<close>.
\<close>

function copy_rows ::
  "byte list \<Rightarrow> int \<Rightarrow> int \<Rightarrow> int \<Rightarrow> int \<Rightarrow> byte list \<Rightarrow> byte list option" where
  "copy_rows ptr pitch width n i raw_data =
     (if i < n then
        (if in_gint (i * pitch) then
           (case read_range ptr (i * pitch) (i * pitch + width) of
              None \<Rightarrow> None
            | Some row \<Rightarrow> copy_rows ptr pitch width n (i + 1) (raw_data @ row))
         else None)
      else Some raw_data)"
  by pat_completeness auto
termination
  by (relation "measure (\<lambda>(ptr, pitch, width, n, i, raw_data). nat (n - i))") auto

declare copy_rows.simps [simp del]

datatype mapping = HostMapping | DeviceMapping

text \<open>
  What the function does to mappings: \<open>Acquire HostMapping\<close> is a successful
  \<open>gst_buffer_map\<close>, \<open>Release HostMapping\<close> is \<open>gst_buffer_unmap\<close>,
  \<open>Acquire DeviceMapping\<close> is a successful \<open>NvBufSurfaceMap\<close> and
  \<open>Release DeviceMapping\<close> is \<open>NvBufSurfaceUnMap\<close>. A map call that fails acquires
  nothing.
\<close>

datatype mapping_event = Acquire mapping | Release mapping

definition process_nvmm_buffer ::
  "GstBuffer \<Rightarrow> GstVideoInfo \<Rightarrow> Image \<Rightarrow> (GstFlowReturn \<times> Image \<times> mapping_event list) option" where
  "process_nvmm_buffer buffer info img =
     (if \<not> buf_map_ok buffer then Some (GST_FLOW_ERROR, img, [])
      else
        (case buf_surface buffer of
           None \<Rightarrow> Some (GST_FLOW_ERROR, img, [Acquire HostMapping, Release HostMapping])
         | Some surface \<Rightarrow>
             if \<not> surf_map_ok surface
             then Some (GST_FLOW_ERROR, img, [Acquire HostMapping, Release HostMapping])
             else if \<not> surf_sync_ok surface
             then Some (GST_FLOW_ERROR, img,
                    [Acquire HostMapping, Acquire DeviceMapping,
                     Release DeviceMapping, Release HostMapping])
             else
               (case mappedAddr0 surface of
                  None \<Rightarrow>
                    Some (GST_FLOW_ERROR, img,
                      [Acquire HostMapping, Acquire DeviceMapping,
                       Release DeviceMapping, Release HostMapping])
                | Some cpu_y_ptr \<Rightarrow>
                    (case mappedAddr1 surface of
                       None \<Rightarrow>
                         Some (GST_FLOW_ERROR, img,
                           [Acquire HostMapping, Acquire DeviceMapping,
                            Release DeviceMapping, Release HostMapping])
                     | Some cpu_uv_ptr \<Rightarrow>
                         let width = sint (surf_width surface);
                             height = sint (surf_height surface);
                             y_pitch = sint (pitch0 surface);
                             uv_pitch = sint (pitch1 surface)
                         in (case copy_rows cpu_y_ptr y_pitch width height 0 [] of
                               None \<Rightarrow> None
                             | Some luma \<Rightarrow>
                                 (case copy_rows cpu_uv_ptr uv_pitch width (height sdiv 2) 0 luma of
                                    None \<Rightarrow> None
                                  | Some raw_data \<Rightarrow>
                                      if finfo_format info = GST_VIDEO_FORMAT_NV12
                                      then Some (GST_FLOW_OK,
                                             Image raw_data (of_int width) (of_int height)
                                               (Pixel NV12),
                                             [Acquire HostMapping, Acquire DeviceMapping,
                                              Release DeviceMapping, Release HostMapping])
                                      else Some (GST_FLOW_NOT_NEGOTIATED, img,
                                             [Acquire HostMapping, Acquire DeviceMapping,
                                              Release DeviceMapping, Release HostMapping])))))))"

section \<open>Render\<close>

datatype extractor = EncodedRoute | DeviceRoute | HostRoute

text \<open>
  \<open>gst_rerun_sink_render\<close>. \<open>have_nvmm\<close> says whether the file is compiled with
  \<open>HAVE_NVMM_SUPPORT\<close>. Beside the flow return and the private data the model returns
  the extractors the call invoked, in order. The result is \<open>None\<close> when the device route
  reads outside a mapped plane.
\<close>

definition gst_rerun_sink_render ::
  "bool \<Rightarrow> GstRerunSinkPrivate \<Rightarrow> GstBuffer \<Rightarrow> GstCaps option \<Rightarrow>
   (GstFlowReturn \<times> GstRerunSinkPrivate \<times> extractor list) option" where
  "gst_rerun_sink_render have_nvmm priv buffer caps =
     (case caps of
        None \<Rightarrow> Some (GST_FLOW_ERROR, priv, [])
      | Some c \<Rightarrow>
          if is_encoded_format caps
          then (case process_encoded_video priv buffer c of
                  (ret, priv') \<Rightarrow> Some (ret, priv', [EncodedRoute]))
          else
            (case caps_video_info c of
               None \<Rightarrow> Some (GST_FLOW_ERROR, priv, [])
             | Some info \<Rightarrow>
                 (case (if have_nvmm \<and> is_nvmm_memory buffer
                        then map_option (\<lambda>(ret, img, evs). (ret, img, DeviceRoute))
                               (process_nvmm_buffer buffer info EmptyImage)
                        else (case process_regular_buffer buffer info EmptyImage of
                                (ret, img) \<Rightarrow> Some (ret, img, HostRoute))) of
                    None \<Rightarrow> None
                  | Some (ret, img, route) \<Rightarrow>
                      if ret \<noteq> GST_FLOW_OK then Some (ret, priv, [route])
                      else if rerun_initialized priv \<and> rec_stream priv \<noteq> None \<and>
                              image_path priv \<noteq> None
                      then Some (GST_FLOW_OK,
                             log_call (LogImage (the (image_path priv)) img) priv, [route])
                      else Some (GST_FLOW_OK, priv, [route]))))"

section \<open>Session start and stop\<close>

text \<open>What the Rerun library answers at session start: which targets fail to open.\<close>

record rerun_env =
  save_is_err :: "string \<Rightarrow> bool"
  connect_grpc_is_err :: "string \<Rightarrow> bool"
  spawn_is_err :: bool

text \<open>
  The tail of a successful start: \<open>codec_sent = FALSE; rerun_initialized = TRUE\<close>.
  (\<open>cudaFree (0)\<close>, compiled in with device support, touches none of this state.)
\<close>

definition start_done :: "GstRerunSinkPrivate \<Rightarrow> bool \<times> GstRerunSinkPrivate" where
  "start_done priv = (True, priv\<lparr>codec_sent := False, rerun_initialized := True\<rparr>)"

definition gst_rerun_sink_start ::
  "rerun_env \<Rightarrow> GstRerunSinkPrivate \<Rightarrow> bool \<times> GstRerunSinkPrivate" where
  "gst_rerun_sink_start env priv0 =
     (if \<not> rerun_initialized priv0 then
        let rec_id = (case recording_id priv0 of Some r \<Rightarrow> r | None \<Rightarrow> ''gst-rerun'');
            priv = new_rec_stream rec_id priv0;
            has_output_file = (output_file priv \<noteq> None);
            has_custom_grpc =
              (grpc_address priv \<noteq> None \<and> grpc_address priv \<noteq> Some DEFAULT_GRPC_ADDRESS);
            options_count =
              (if has_output_file then 1 else 0) + (if has_custom_grpc then (1::int) else 0)
        in if options_count > 1 then (False, delete_rec_stream priv)
           else if has_output_file then
             (let priv1 = log_call (Save (the (output_file priv))) priv
              in if save_is_err env (the (output_file priv))
                 then (False, delete_rec_stream priv1)
                 else start_done priv1)
           else if has_custom_grpc then
             (let priv1 = log_call (ConnectGrpc (the (grpc_address priv))) priv
              in if connect_grpc_is_err env (the (grpc_address priv))
                 then (False, delete_rec_stream priv1)
                 else start_done priv1)
           else if spawn_viewer priv then
             (let priv1 = log_call Spawn priv
              in if spawn_is_err env then (False, priv1) else start_done priv1)
           else start_done priv
      else (True, priv0))"


section \<open>Notions used to state the properties\<close>

text \<open>
  The size the specification expects of a normalized image, in its words: packed RGB is
  \<open>width * height * 3\<close>, RGBA \<open>width * height * 4\<close>, GRAY8 \<open>width * height\<close>, NV12 and
  I420 \<open>width * height * 3 / 2\<close>. This is the specification's arithmetic, not a function
  of the element.
\<close>

definition spec_expected_size :: "GstVideoFormat \<Rightarrow> nat \<Rightarrow> nat \<Rightarrow> nat" where
  "spec_expected_size format width height =
     (case format of
        GST_VIDEO_FORMAT_RGB \<Rightarrow> width * height * 3
      | GST_VIDEO_FORMAT_RGBA \<Rightarrow> width * height * 4
      | GST_VIDEO_FORMAT_GRAY8 \<Rightarrow> width * height
      | GST_VIDEO_FORMAT_NV12 \<Rightarrow> width * height * 3 div 2
      | GST_VIDEO_FORMAT_I420 \<Rightarrow> width * height * 3 div 2
      | GST_VIDEO_FORMAT_OTHER _ \<Rightarrow> 0)"










section \<open>Concrete inputs\<close>

definition ok_env :: rerun_env where
  "ok_env = \<lparr> save_is_err = (\<lambda>_. False), connect_grpc_is_err = (\<lambda>_. False), spawn_is_err = False \<rparr>"

definition spawn_fail_env :: rerun_env where
  "spawn_fail_env =
     \<lparr> save_is_err = (\<lambda>_. False), connect_grpc_is_err = (\<lambda>_. False), spawn_is_err = True \<rparr>"

text \<open>The private data after a successful default start (viewer spawned), no path set.\<close>

definition active_priv :: GstRerunSinkPrivate where
  "active_priv =
     \<lparr> rec_stream = Some 0, rerun_initialized = True, recording_id = None,
       image_path = None, video_path = None, spawn_viewer = True, output_file = None,
       grpc_address = Some DEFAULT_GRPC_ADDRESS, codec_sent = False,
       streams = [(0, ''gst-rerun'')], next_handle = 1, calls = [Spawn] \<rparr>"

definition video_priv :: GstRerunSinkPrivate where
  "video_priv = active_priv\<lparr>video_path := Some ''camera/video''\<rparr>"

definition conflict_priv :: GstRerunSinkPrivate where
  "conflict_priv =
     gst_rerun_sink_init\<lparr>output_file := Some ''out.rrd'', grpc_address := Some ''10.0.0.7:9876''\<rparr>"

definition h264_caps :: GstCaps where
  "h264_caps =
     \<lparr> caps_structure =
         Some \<lparr> struct_name = ''video/x-h264'',
                struct_fields =
                  [(''stream-format'', GString ''byte-stream''),
                   (''width'', GInt 640), (''height'', GInt 480)] \<rparr>,
       caps_video_info = None \<rparr>"

definition h264_caps_no_dims :: GstCaps where
  "h264_caps_no_dims =
     \<lparr> caps_structure =
         Some \<lparr> struct_name = ''video/x-h264'',
                struct_fields = [(''stream-format'', GString ''byte-stream'')] \<rparr>,
       caps_video_info = None \<rparr>"

definition raw_caps_no_info :: GstCaps where
  "raw_caps_no_info =
     \<lparr> caps_structure = Some \<lparr> struct_name = ''video/x-raw'', struct_fields = [] \<rparr>,
       caps_video_info = None \<rparr>"

definition rgb_1x1_info :: GstVideoInfo where
  "rgb_1x1_info = \<lparr> finfo_format = GST_VIDEO_FORMAT_RGB, info_width = 1, info_height = 1 \<rparr>"

definition nv12_2x2_info :: GstVideoInfo where
  "nv12_2x2_info = \<lparr> finfo_format = GST_VIDEO_FORMAT_NV12, info_width = 2, info_height = 2 \<rparr>"


text \<open>YUY2 is value 4 of \<open>GstVideoFormat\<close>, outside the five formats of the element.\<close>

definition yuy2_info :: GstVideoInfo where
  "yuy2_info = \<lparr> finfo_format = GST_VIDEO_FORMAT_OTHER 4, info_width = 2, info_height = 2 \<rparr>"

definition yuy2_caps :: GstCaps where
  "yuy2_caps =
     \<lparr> caps_structure = Some \<lparr> struct_name = ''video/x-raw'', struct_fields = [] \<rparr>,
       caps_video_info = Some yuy2_info \<rparr>"

definition nv12_caps :: GstCaps where
  "nv12_caps =
     \<lparr> caps_structure = Some \<lparr> struct_name = ''video/x-raw'', struct_fields = [] \<rparr>,
       caps_video_info = Some nv12_2x2_info \<rparr>"

definition image_priv :: GstRerunSinkPrivate where
  "image_priv = active_priv\<lparr>image_path := Some ''camera/image''\<rparr>"

definition host_buffer :: "byte list \<Rightarrow> GstBuffer" where
  "host_buffer bytes =
     \<lparr> buf_memory = Some (GstMemory (Some ''GstSystemMemory'')), buf_map_ok = True,
       buf_data = bytes, buf_surface = None, buf_dts = 40 \<rparr>"

definition unmappable_buffer :: GstBuffer where
  "unmappable_buffer = (host_buffer [])\<lparr>buf_map_ok := False\<rparr>"

text \<open>A 2x2 NV12 surface with pitch 4: two padding bytes end every row.\<close>

definition padded_surface :: NvBufSurface where
  "padded_surface =
     \<lparr> surf_map_ok = True, surf_sync_ok = True,
       mappedAddr0 = Some [1, 2, 0, 0, 3, 4, 0, 0],
       mappedAddr1 = Some [5, 6, 0, 0],
       surf_width = 2, surf_height = 2, pitch0 = 4, pitch1 = 4 \<rparr>"


definition nvmm_buffer :: "NvBufSurface \<Rightarrow> GstBuffer" where
  "nvmm_buffer surface =
     \<lparr> buf_memory = Some (GstMemory (Some ''nvdsmemoryallocator0'')), buf_map_ok = True,
       buf_data = [], buf_surface = Some surface, buf_dts = 0 \<rparr>"


section \<open>The encoded route: validation and the missing video path\<close>

text \<open>
  C1, as amended. The test of the video path comes first in \<open>process_encoded_video\<close>:
  when the session is not initialized, has no recording stream or has no video path, the
  call returns \<open>GST_FLOW_OK\<close> at once, with the private data (and the calls made on the
  stream) unchanged and without looking at the caps. The width and height are validated
  only when the path is configured: there a missing or zero width or height returns
  \<open>GST_FLOW_ERROR\<close>, again with nothing emitted.
\<close>

theorem encoded_path_test_precedes_validation:
  "(\<not> rerun_initialized priv \<or> rec_stream priv = None \<or> video_path priv = None \<longrightarrow>
      process_encoded_video priv buffer caps = (GST_FLOW_OK, priv)) \<and>
   (rerun_initialized priv \<and> rec_stream priv \<noteq> None \<and> video_path priv \<noteq> None \<and>
      (gst_structure_get_int (caps_structure caps) ''width'' 0 = 0 \<or>
       gst_structure_get_int (caps_structure caps) ''height'' 0 = 0) \<longrightarrow>
      process_encoded_video priv buffer caps = (GST_FLOW_ERROR, priv))"
  by (auto simp: process_encoded_video_def Let_def)

theorem encoded_path_test_precedes_validation_witness:
  "video_path active_priv = None \<and>
   process_encoded_video active_priv (host_buffer [1, 2]) h264_caps_no_dims =
     (GST_FLOW_OK, active_priv) \<and>
   rerun_initialized video_priv \<and> rec_stream video_priv \<noteq> None \<and>
   video_path video_priv \<noteq> None \<and>
   gst_structure_get_int (caps_structure h264_caps_no_dims) ''width'' 0 = 0 \<and>
   process_encoded_video video_priv (host_buffer [1, 2]) h264_caps_no_dims =
     (GST_FLOW_ERROR, video_priv)"
  using encoded_path_test_precedes_validation
          [of active_priv "host_buffer [1, 2]" h264_caps_no_dims]
        encoded_path_test_precedes_validation
          [of video_priv "host_buffer [1, 2]" h264_caps_no_dims]
  by (simp add: active_priv_def video_priv_def h264_caps_no_dims_def gst_structure_get_int_def)

text \<open>
  The claim as stated fails: the same caps without width and height give
  \<open>GST_FLOW_OK\<close> when the video path is not set and \<open>GST_FLOW_ERROR\<close> when it is.
\<close>

theorem encoded_validation_skipped_without_path:
  "fst (process_encoded_video active_priv (host_buffer [1, 2]) h264_caps_no_dims) = GST_FLOW_OK \<and>
   fst (process_encoded_video video_priv (host_buffer [1, 2]) h264_caps_no_dims) = GST_FLOW_ERROR"
  by (simp add: process_encoded_video_def active_priv_def video_priv_def h264_caps_no_dims_def
      gst_structure_get_int_def)

section \<open>The host route: the copied bytes\<close>

text \<open>
  C2, as amended. For every supported raw format and every buffer that maps,
  \<open>process_regular_buffer\<close> returns \<open>GST_FLOW_OK\<close> with an image whose bytes are the
  whole mapped view (\<open>map.size\<close> bytes, all of them copied); its length is the expected
  size of the format exactly when the mapped view has that size.
\<close>

theorem regular_buffer_copies_mapped_view:
  assumes "buf_map_ok buffer"
    and "finfo_format info \<in>
           {GST_VIDEO_FORMAT_RGB, GST_VIDEO_FORMAT_RGBA, GST_VIDEO_FORMAT_GRAY8,
            GST_VIDEO_FORMAT_NV12, GST_VIDEO_FORMAT_I420}"
  shows "fst (process_regular_buffer buffer info img) = GST_FLOW_OK \<and>
         image_bytes (snd (process_regular_buffer buffer info img)) = buf_data buffer \<and>
         (length (image_bytes (snd (process_regular_buffer buffer info img))) =
            spec_expected_size (finfo_format info) (nat (info_width info)) (nat (info_height info))) =
         (length (buf_data buffer) =
            spec_expected_size (finfo_format info) (nat (info_width info)) (nat (info_height info)))"
  using assms
  by (auto simp: process_regular_buffer_def Let_def create_image_from_format_def)

theorem regular_buffer_copies_mapped_view_witness:
  "buf_map_ok (host_buffer [7, 8, 9]) \<and>
   fst (process_regular_buffer (host_buffer [7, 8, 9]) rgb_1x1_info EmptyImage) = GST_FLOW_OK \<and>
   image_bytes (snd (process_regular_buffer (host_buffer [7, 8, 9]) rgb_1x1_info EmptyImage)) =
     [7, 8, 9] \<and>
   spec_expected_size GST_VIDEO_FORMAT_RGB 1 1 = 3"
  using regular_buffer_copies_mapped_view [of "host_buffer [7, 8, 9]" rgb_1x1_info EmptyImage]
  by (simp add: host_buffer_def rgb_1x1_info_def spec_expected_size_def)

text \<open>
  The claim as stated fails: a 1x1 RGB frame whose mapped view has 4 bytes (the row
  padded to a multiple of 4) gives an image of 4 bytes, not the
  \<open>1 * 1 * 3\<close> bytes of the expected size.
\<close>

theorem regular_buffer_length_is_map_size:
  "process_regular_buffer (host_buffer [7, 8, 9, 0]) rgb_1x1_info EmptyImage =
     (GST_FLOW_OK, Image [7, 8, 9, 0] 1 1 RGB24) \<and>
   length [7, 8, 9, 0 :: byte] = 4 \<and>
   spec_expected_size GST_VIDEO_FORMAT_RGB 1 1 = 3"
  by (simp add: process_regular_buffer_def host_buffer_def rgb_1x1_info_def
      create_image_from_format_def spec_expected_size_def)

section \<open>The device route: depadding\<close>












section \<open>Session start\<close>

text \<open>
  C4. When a start is attempted (the session is not initialized) with both an output
  file and a gRPC address other than the default, \<open>gst_rerun_sink_start\<close> returns FALSE,
  \<open>rerun_initialized\<close> stays FALSE, no call is made on a recording stream (no save,
  connect or spawn), \<open>rec_stream\<close> is null again, and the recording stream allocated by
  this start has been deleted: no stream is live that was not live before.
\<close>

theorem start_conflict_aborts:
  assumes "\<not> rerun_initialized priv" and "output_file priv \<noteq> None"
    and "grpc_address priv = Some address" and "address \<noteq> DEFAULT_GRPC_ADDRESS"
  shows "fst (gst_rerun_sink_start env priv) = False \<and>
         \<not> rerun_initialized (snd (gst_rerun_sink_start env priv)) \<and>
         calls (snd (gst_rerun_sink_start env priv)) = calls priv \<and>
         rec_stream (snd (gst_rerun_sink_start env priv)) = None \<and>
         next_handle priv \<notin> fst ` set (streams (snd (gst_rerun_sink_start env priv))) \<and>
         set (streams (snd (gst_rerun_sink_start env priv))) \<subseteq> set (streams priv)"
proof -
  have "gst_rerun_sink_start env priv =
          (False, delete_rec_stream
             (new_rec_stream (case recording_id priv of Some r \<Rightarrow> r | None \<Rightarrow> ''gst-rerun'') priv))"
    using assms by (simp add: gst_rerun_sink_start_def Let_def new_rec_stream_def)
  then show ?thesis
    using assms(1) by (auto simp: new_rec_stream_def delete_rec_stream_def)
qed

theorem start_conflict_aborts_witness:
  "\<not> rerun_initialized conflict_priv \<and> output_file conflict_priv \<noteq> None \<and>
   grpc_address conflict_priv = Some ''10.0.0.7:9876'' \<and>
   ''10.0.0.7:9876'' \<noteq> DEFAULT_GRPC_ADDRESS \<and>
   fst (gst_rerun_sink_start ok_env conflict_priv) = False \<and>
   \<not> rerun_initialized (snd (gst_rerun_sink_start ok_env conflict_priv)) \<and>
   calls (snd (gst_rerun_sink_start ok_env conflict_priv)) = [] \<and>
   rec_stream (snd (gst_rerun_sink_start ok_env conflict_priv)) = None \<and>
   streams (snd (gst_rerun_sink_start ok_env conflict_priv)) = []"
proof -
  have h: "\<not> rerun_initialized conflict_priv" "output_file conflict_priv \<noteq> None"
    "grpc_address conflict_priv = Some ''10.0.0.7:9876''"
    "''10.0.0.7:9876'' \<noteq> DEFAULT_GRPC_ADDRESS"
    by (simp_all add: conflict_priv_def gst_rerun_sink_init_def DEFAULT_GRPC_ADDRESS_def)
  have s: "streams conflict_priv = []" "calls conflict_priv = []"
    by (simp_all add: conflict_priv_def gst_rerun_sink_init_def)
  show ?thesis
    using start_conflict_aborts [OF h, of ok_env] h s by simp
qed

text \<open>
  The two sibling branches of the spawn branch: when save or connect fails, the stream is
  deleted and the pointer reset before FALSE is returned.
\<close>

lemma start_save_failure_releases:
  assumes "\<not> rerun_initialized priv" and "output_file priv = Some file"
    and "grpc_address priv = None \<or> grpc_address priv = Some DEFAULT_GRPC_ADDRESS"
    and "save_is_err env file"
  shows "fst (gst_rerun_sink_start env priv) = False \<and>
         \<not> rerun_initialized (snd (gst_rerun_sink_start env priv)) \<and>
         rec_stream (snd (gst_rerun_sink_start env priv)) = None \<and>
         set (streams (snd (gst_rerun_sink_start env priv))) \<subseteq> set (streams priv)"
  using assms
  by (auto simp: gst_rerun_sink_start_def Let_def new_rec_stream_def delete_rec_stream_def
      log_call_def)

lemma start_connect_failure_releases:
  assumes "\<not> rerun_initialized priv" and "output_file priv = None"
    and "grpc_address priv = Some address" and "address \<noteq> DEFAULT_GRPC_ADDRESS"
    and "connect_grpc_is_err env address"
  shows "fst (gst_rerun_sink_start env priv) = False \<and>
         \<not> rerun_initialized (snd (gst_rerun_sink_start env priv)) \<and>
         rec_stream (snd (gst_rerun_sink_start env priv)) = None \<and>
         set (streams (snd (gst_rerun_sink_start env priv))) \<subseteq> set (streams priv)"
  using assms
  by (auto simp: gst_rerun_sink_start_def Let_def new_rec_stream_def delete_rec_stream_def
      log_call_def)

text \<open>
  C8, the spawn branch. With the default configuration and a viewer that fails to spawn,
  \<open>gst_rerun_sink_start\<close> returns FALSE and leaves the session not initialized, but the
  recording stream allocated by this start is still live and \<open>rec_stream\<close> still points
  to it: the branch returns without the \<open>delete\<close> and the reset of its two siblings.
\<close>

theorem start_spawn_failure_keeps_stream:
  "gst_rerun_sink_start spawn_fail_env gst_rerun_sink_init =
     (False,
      gst_rerun_sink_init\<lparr>rec_stream := Some 0, streams := [(0, ''gst-rerun'')],
        next_handle := 1, calls := [Spawn]\<rparr>)"
  by (simp add: gst_rerun_sink_start_def gst_rerun_sink_init_def spawn_fail_env_def Let_def
      new_rec_stream_def log_call_def DEFAULT_GRPC_ADDRESS_def)

section \<open>Codec announcement\<close>


















section \<open>Routing\<close>

text \<open>
  C6, as amended. For every rendered buffer whose caps are present and, when not
  encoded, are accepted by \<open>gst_video_info_from_caps\<close>, the call invokes exactly one
  extractor and returns what follows from its result: the encoded route when structure 0
  of the caps is named \<open>video/x-h264\<close> or \<open>video/x-h265\<close>, whatever the memory of the
  buffer; otherwise the device route when device support is compiled in and the
  allocator of the buffer's first memory is one of the two device allocators (render has a
  result exactly when \<open>process_nvmm_buffer\<close> has one); otherwise the host route. After
  the device and host routes the image is logged when the extractor returned
  \<open>GST_FLOW_OK\<close> and the session is active with an image path. A buffer rendered with no
  caps, or with caps that are not encoded and do not parse to video info, yields
  \<open>GST_FLOW_ERROR\<close>, with nothing changed and no extractor invoked.
\<close>

theorem render_routes_to_one_extractor:
  "(gst_rerun_sink_render have_nvmm priv buffer None = Some (GST_FLOW_ERROR, priv, [])) \<and>
   (is_encoded_format (Some c) \<longrightarrow>
      gst_rerun_sink_render have_nvmm priv buffer (Some c) =
        Some (fst (process_encoded_video priv buffer c),
              snd (process_encoded_video priv buffer c), [EncodedRoute])) \<and>
   (\<not> is_encoded_format (Some c) \<and> caps_video_info c = None \<longrightarrow>
      gst_rerun_sink_render have_nvmm priv buffer (Some c) =
        Some (GST_FLOW_ERROR, priv, [])) \<and>
   (\<not> is_encoded_format (Some c) \<and> caps_video_info c = Some info \<and>
    have_nvmm \<and> is_nvmm_memory buffer \<longrightarrow>
      (process_nvmm_buffer buffer info EmptyImage = None \<longrightarrow>
         gst_rerun_sink_render have_nvmm priv buffer (Some c) = None) \<and>
      (\<forall>ret img evs.
         process_nvmm_buffer buffer info EmptyImage = Some (ret, img, evs) \<longrightarrow>
         gst_rerun_sink_render have_nvmm priv buffer (Some c) =
           Some (ret,
                 (if ret = GST_FLOW_OK \<and> rerun_initialized priv \<and> rec_stream priv \<noteq> None \<and>
                     image_path priv \<noteq> None
                  then log_call (LogImage (the (image_path priv)) img) priv else priv),
                 [DeviceRoute]))) \<and>
   (\<not> is_encoded_format (Some c) \<and> caps_video_info c = Some info \<and>
    \<not> (have_nvmm \<and> is_nvmm_memory buffer) \<longrightarrow>
      gst_rerun_sink_render have_nvmm priv buffer (Some c) =
        Some (fst (process_regular_buffer buffer info EmptyImage),
              (if fst (process_regular_buffer buffer info EmptyImage) = GST_FLOW_OK \<and>
                  rerun_initialized priv \<and> rec_stream priv \<noteq> None \<and> image_path priv \<noteq> None
               then log_call
                      (LogImage (the (image_path priv))
                         (snd (process_regular_buffer buffer info EmptyImage))) priv
               else priv),
              [HostRoute])) \<and>
   is_encoded_format (Some c) =
     (\<exists>s. caps_structure c = Some s \<and>
          (struct_name s = ''video/x-h264'' \<or> struct_name s = ''video/x-h265'')) \<and>
   is_nvmm_memory buffer =
     (\<exists>m. buf_memory buffer = Some m \<and>
          (allocator m = Some ''nvfiltermemoryallocator0'' \<or>
           allocator m = Some ''nvdsmemoryallocator0''))"
proof -
  have nocaps: "gst_rerun_sink_render have_nvmm priv buffer None =
      Some (GST_FLOW_ERROR, priv, [])"
    by (simp add: gst_rerun_sink_render_def)
  have encoded: "is_encoded_format (Some c) \<longrightarrow>
      gst_rerun_sink_render have_nvmm priv buffer (Some c) =
        Some (fst (process_encoded_video priv buffer c),
              snd (process_encoded_video priv buffer c), [EncodedRoute])"
    by (simp add: gst_rerun_sink_render_def split: prod.splits)
  have noinfo: "\<not> is_encoded_format (Some c) \<and> caps_video_info c = None \<longrightarrow>
      gst_rerun_sink_render have_nvmm priv buffer (Some c) =
        Some (GST_FLOW_ERROR, priv, [])"
    by (simp add: gst_rerun_sink_render_def)
  have device: "\<not> is_encoded_format (Some c) \<and> caps_video_info c = Some info \<and>
    have_nvmm \<and> is_nvmm_memory buffer \<longrightarrow>
      (process_nvmm_buffer buffer info EmptyImage = None \<longrightarrow>
         gst_rerun_sink_render have_nvmm priv buffer (Some c) = None) \<and>
      (\<forall>ret img evs.
         process_nvmm_buffer buffer info EmptyImage = Some (ret, img, evs) \<longrightarrow>
         gst_rerun_sink_render have_nvmm priv buffer (Some c) =
           Some (ret,
                 (if ret = GST_FLOW_OK \<and> rerun_initialized priv \<and> rec_stream priv \<noteq> None \<and>
                     image_path priv \<noteq> None
                  then log_call (LogImage (the (image_path priv)) img) priv else priv),
                 [DeviceRoute]))"
    by (auto simp: gst_rerun_sink_render_def)
  have host: "\<not> is_encoded_format (Some c) \<and> caps_video_info c = Some info \<and>
    \<not> (have_nvmm \<and> is_nvmm_memory buffer) \<longrightarrow>
      gst_rerun_sink_render have_nvmm priv buffer (Some c) =
        Some (fst (process_regular_buffer buffer info EmptyImage),
              (if fst (process_regular_buffer buffer info EmptyImage) = GST_FLOW_OK \<and>
                  rerun_initialized priv \<and> rec_stream priv \<noteq> None \<and> image_path priv \<noteq> None
               then log_call
                      (LogImage (the (image_path priv))
                         (snd (process_regular_buffer buffer info EmptyImage))) priv
               else priv),
              [HostRoute])"
    by (auto simp: gst_rerun_sink_render_def split: prod.splits)
  have enc: "is_encoded_format (Some c) =
           (\<exists>s. caps_structure c = Some s \<and>
                (struct_name s = ''video/x-h264'' \<or> struct_name s = ''video/x-h265''))"
    by (auto simp: is_encoded_format_def split: option.splits)
  have dev: "is_nvmm_memory buffer =
           (\<exists>m. buf_memory buffer = Some m \<and>
                (allocator m = Some ''nvfiltermemoryallocator0'' \<or>
                 allocator m = Some ''nvdsmemoryallocator0''))"
    by (auto simp: is_nvmm_memory_def split: option.splits)
  show ?thesis
    using nocaps encoded noinfo device host enc dev by (intro conjI)
qed

theorem render_routes_to_one_extractor_witness:
  "is_encoded_format (Some h264_caps) \<and>
   is_nvmm_memory ((nvmm_buffer padded_surface)\<lparr>buf_data := [9], buf_dts := 40\<rparr>) \<and>
   gst_rerun_sink_render True video_priv
       ((nvmm_buffer padded_surface)\<lparr>buf_data := [9], buf_dts := 40\<rparr>) (Some h264_caps) =
     Some (GST_FLOW_OK,
       video_priv\<lparr>codec_sent := True,
         calls := [Spawn, LogStaticCodec ''camera/video'' (Some H264),
                   SetTimeTimestamp ''time'' 40, LogSample ''camera/video'' [9]]\<rparr>,
       [EncodedRoute]) \<and>
   caps_video_info nv12_caps = Some nv12_2x2_info \<and>
   is_nvmm_memory (nvmm_buffer padded_surface) \<and>
   gst_rerun_sink_render True image_priv (nvmm_buffer padded_surface) (Some nv12_caps) =
     Some (GST_FLOW_OK,
       image_priv\<lparr>calls :=
         [Spawn, LogImage ''camera/image'' (Image [1, 2, 3, 4, 5, 6] 2 2 (Pixel NV12))]\<rparr>,
       [DeviceRoute]) \<and>
   gst_rerun_sink_render False image_priv (nvmm_buffer padded_surface) (Some nv12_caps) =
     Some (GST_FLOW_OK,
       image_priv\<lparr>calls := [Spawn, LogImage ''camera/image'' (Image [] 2 2 (Pixel NV12))]\<rparr>,
       [HostRoute])"
proof -
  let ?b = "(nvmm_buffer padded_surface)\<lparr>buf_data := [9], buf_dts := 40\<rparr>"
  have e: "is_encoded_format (Some h264_caps)" "\<not> is_encoded_format (Some nv12_caps)"
    by (simp_all add: is_encoded_format_def h264_caps_def nv12_caps_def)
  have i: "caps_video_info nv12_caps = Some nv12_2x2_info"
    by (simp add: nv12_caps_def)
  have n: "is_nvmm_memory ?b" "is_nvmm_memory (nvmm_buffer padded_surface)"
    by (simp_all add: is_nvmm_memory_def nvmm_buffer_def)
  have pe: "process_encoded_video video_priv ?b h264_caps =
     (GST_FLOW_OK,
       video_priv\<lparr>codec_sent := True,
         calls := [Spawn, LogStaticCodec ''camera/video'' (Some H264),
                   SetTimeTimestamp ''time'' 40, LogSample ''camera/video'' [9]]\<rparr>)"
    by (simp add: process_encoded_video_def video_priv_def
        active_priv_def h264_caps_def nvmm_buffer_def gst_structure_get_int_def
        codec_of_name_def log_call_def Let_def)
  have pn: "process_nvmm_buffer (nvmm_buffer padded_surface) nv12_2x2_info EmptyImage =
     Some (GST_FLOW_OK, Image [1, 2, 3, 4, 5, 6] 2 2 (Pixel NV12),
       [Acquire HostMapping, Acquire DeviceMapping,
        Release DeviceMapping, Release HostMapping])"
    by (simp add: process_nvmm_buffer_def nvmm_buffer_def padded_surface_def nv12_2x2_info_def
        copy_rows.simps read_range_def in_gint_def signed_divide_int_def)
  have pr: "process_regular_buffer (nvmm_buffer padded_surface) nv12_2x2_info EmptyImage =
     (GST_FLOW_OK, Image [] 2 2 (Pixel NV12))"
    by (simp add: process_regular_buffer_def nvmm_buffer_def nv12_2x2_info_def
        create_image_from_format_def)
  have ip: "rerun_initialized image_priv" "rec_stream image_priv \<noteq> None"
    "image_path image_priv = Some ''camera/image''" "calls image_priv = [Spawn]"
    by (simp_all add: image_priv_def active_priv_def)
  have l: "log_call (LogImage ''camera/image'' img) image_priv =
      image_priv\<lparr>calls := [Spawn, LogImage ''camera/image'' img]\<rparr>" for img
    by (simp add: log_call_def ip)
  show ?thesis
    using render_routes_to_one_extractor [of True video_priv ?b h264_caps nv12_2x2_info]
          render_routes_to_one_extractor
            [of True image_priv "nvmm_buffer padded_surface" nv12_caps nv12_2x2_info]
          render_routes_to_one_extractor
            [of False image_priv "nvmm_buffer padded_surface" nv12_caps nv12_2x2_info]
          e i n pe pn pr ip l
    by simp
qed

text \<open>
  The claim as stated fails: a buffer rendered with no caps, or with raw caps that
  \<open>gst_video_info_from_caps\<close> rejects, is routed to no extractor.
\<close>

theorem render_without_video_info_routes_nowhere:
  "gst_rerun_sink_render True active_priv (host_buffer [1, 2, 3]) None =
     Some (GST_FLOW_ERROR, active_priv, []) \<and>
   gst_rerun_sink_render True active_priv (host_buffer [1, 2, 3]) (Some raw_caps_no_info) =
     Some (GST_FLOW_ERROR, active_priv, [])"
  by (simp add: gst_rerun_sink_render_def is_encoded_format_def raw_caps_no_info_def)

section \<open>Unsupported formats on the host route\<close>

text \<open>
  C7, as amended. For every host-route buffer whose pixel format is outside RGB, RGBA,
  GRAY8, NV12 and I420, \<open>process_regular_buffer\<close> returns the "not negotiated" code when
  the buffer maps, and the generic error code when it does not (the map comes before the
  format test); the two codes differ; and in both cases render returns that code, routes
  the buffer to the host extractor only, and makes no call on the recording stream (no
  image is written).
\<close>

theorem unsupported_format_not_negotiated:
  assumes "finfo_format info \<notin>
             {GST_VIDEO_FORMAT_RGB, GST_VIDEO_FORMAT_RGBA, GST_VIDEO_FORMAT_GRAY8,
              GST_VIDEO_FORMAT_NV12, GST_VIDEO_FORMAT_I420}"
    and "\<not> is_encoded_format (Some c)" and "caps_video_info c = Some info"
    and "\<not> (have_nvmm \<and> is_nvmm_memory buffer)"
  shows "fst (process_regular_buffer buffer info img) =
           (if buf_map_ok buffer then GST_FLOW_NOT_NEGOTIATED else GST_FLOW_ERROR) \<and>
         GST_FLOW_NOT_NEGOTIATED \<noteq> GST_FLOW_ERROR \<and>
         gst_rerun_sink_render have_nvmm priv buffer (Some c) =
           Some (if buf_map_ok buffer then GST_FLOW_NOT_NEGOTIATED else GST_FLOW_ERROR,
                 priv, [HostRoute]) \<and>
         (\<forall>ret priv' routes.
            gst_rerun_sink_render have_nvmm priv buffer (Some c) = Some (ret, priv', routes) \<longrightarrow>
            calls priv' = calls priv)"
  using assms
  by (auto simp: gst_rerun_sink_render_def process_regular_buffer_def Let_def)

theorem unsupported_format_not_negotiated_witness:
  "finfo_format yuy2_info \<notin>
     {GST_VIDEO_FORMAT_RGB, GST_VIDEO_FORMAT_RGBA, GST_VIDEO_FORMAT_GRAY8,
      GST_VIDEO_FORMAT_NV12, GST_VIDEO_FORMAT_I420} \<and>
   \<not> is_encoded_format (Some yuy2_caps) \<and> caps_video_info yuy2_caps = Some yuy2_info \<and>
   \<not> is_nvmm_memory (host_buffer [1, 2, 3, 4, 5, 6, 7, 8]) \<and>
   fst (process_regular_buffer (host_buffer [1, 2, 3, 4, 5, 6, 7, 8]) yuy2_info EmptyImage) =
     GST_FLOW_NOT_NEGOTIATED \<and>
   gst_rerun_sink_render True (active_priv\<lparr>image_path := Some ''camera/image''\<rparr>)
       (host_buffer [1, 2, 3, 4, 5, 6, 7, 8]) (Some yuy2_caps) =
     Some (GST_FLOW_NOT_NEGOTIATED, active_priv\<lparr>image_path := Some ''camera/image''\<rparr>,
       [HostRoute])"
proof -
  let ?b = "host_buffer [1, 2, 3, 4, 5, 6, 7, 8]"
  have h: "finfo_format yuy2_info \<notin>
     {GST_VIDEO_FORMAT_RGB, GST_VIDEO_FORMAT_RGBA, GST_VIDEO_FORMAT_GRAY8,
      GST_VIDEO_FORMAT_NV12, GST_VIDEO_FORMAT_I420}"
    "\<not> is_encoded_format (Some yuy2_caps)" "caps_video_info yuy2_caps = Some yuy2_info"
    "\<not> (True \<and> is_nvmm_memory ?b)"
    by (simp_all add: yuy2_info_def yuy2_caps_def is_encoded_format_def is_nvmm_memory_def
        host_buffer_def)
  have m: "buf_map_ok ?b" by (simp add: host_buffer_def)
  show ?thesis
    using unsupported_format_not_negotiated
            [OF h, of EmptyImage "active_priv\<lparr>image_path := Some ''camera/image''\<rparr>"] h m
    by simp
qed

text \<open>
  The claim as stated fails: a buffer of an unsupported format that does not map gives
  the generic error code, not "not negotiated".
\<close>

theorem unsupported_format_unmappable_is_error:
  "finfo_format yuy2_info = GST_VIDEO_FORMAT_OTHER 4 \<and>
   process_regular_buffer unmappable_buffer yuy2_info EmptyImage =
     (GST_FLOW_ERROR, EmptyImage)"
  by (simp add: process_regular_buffer_def unmappable_buffer_def yuy2_info_def)

section \<open>Mappings of the device route\<close>

text \<open>
  C9. On every exit path of \<open>process_nvmm_buffer\<close> the mappings acquired are released
  before the function returns, the device mapping before the host mapping: the function
  acquires nothing (the buffer does not map), or acquires and releases the host mapping
  (null surface, device map failure), or acquires the host then the device mapping and
  releases the device then the host mapping (synchronization failure, null plane
  pointer, unsupported format, success). A return other than \<open>GST_FLOW_ERROR\<close> has the
  last shape.
\<close>

theorem nvmm_mappings_released_on_every_exit:
  assumes "process_nvmm_buffer buffer info img = Some (ret, img', evs)"
  shows "evs \<in> {[],
                 [Acquire HostMapping, Release HostMapping],
                 [Acquire HostMapping, Acquire DeviceMapping,
                  Release DeviceMapping, Release HostMapping]} \<and>
         (ret \<noteq> GST_FLOW_ERROR \<longrightarrow>
            evs = [Acquire HostMapping, Acquire DeviceMapping,
                   Release DeviceMapping, Release HostMapping])"
  using assms
  by (auto simp: process_nvmm_buffer_def Let_def split: if_splits option.splits)

theorem nvmm_mappings_released_on_every_exit_witness:
  "process_nvmm_buffer (nvmm_buffer (padded_surface\<lparr>surf_sync_ok := False\<rparr>)) nv12_2x2_info
       EmptyImage =
     Some (GST_FLOW_ERROR, EmptyImage,
       [Acquire HostMapping, Acquire DeviceMapping,
        Release DeviceMapping, Release HostMapping]) \<and>
   [Acquire HostMapping, Acquire DeviceMapping, Release DeviceMapping, Release HostMapping] \<in>
     {[],
      [Acquire HostMapping, Release HostMapping],
      [Acquire HostMapping, Acquire DeviceMapping,
       Release DeviceMapping, Release HostMapping]}"
proof -
  have r: "process_nvmm_buffer (nvmm_buffer (padded_surface\<lparr>surf_sync_ok := False\<rparr>))
       nv12_2x2_info EmptyImage =
     Some (GST_FLOW_ERROR, EmptyImage,
       [Acquire HostMapping, Acquire DeviceMapping,
        Release DeviceMapping, Release HostMapping])"
    by (simp add: process_nvmm_buffer_def nvmm_buffer_def padded_surface_def)
  show ?thesis
    using nvmm_mappings_released_on_every_exit [OF r] r by simp
qed

section \<open>The codec variable\<close>

text \<open>
  C10. Whenever render invokes the encoded route, the caps have a structure 0 named
  \<open>video/x-h264\<close> or \<open>video/x-h265\<close> (the test of \<open>is_encoded_format\<close> that precedes the
  call), so the local \<open>codec\<close> of \<open>process_encoded_video\<close> is assigned by one of the two
  branches before it is read; and no call of render announces a codec read unassigned.
\<close>

theorem render_codec_always_assigned:
  assumes "gst_rerun_sink_render have_nvmm priv buffer caps = Some (ret, priv', routes)"
  shows "(EncodedRoute \<in> set routes \<longrightarrow>
            (\<exists>c s. caps = Some c \<and> caps_structure c = Some s \<and>
               (struct_name s = ''video/x-h264'' \<or> struct_name s = ''video/x-h265'') \<and>
               codec_of_name (map_option struct_name (caps_structure c)) \<noteq> None)) \<and>
         (\<forall>path. LogStaticCodec path None \<in> set (calls priv') \<longrightarrow>
                 LogStaticCodec path None \<in> set (calls priv))"
proof -
  have a: "EncodedRoute \<in> set routes \<longrightarrow>
            (\<exists>c s. caps = Some c \<and> caps_structure c = Some s \<and>
               (struct_name s = ''video/x-h264'' \<or> struct_name s = ''video/x-h265'') \<and>
               codec_of_name (map_option struct_name (caps_structure c)) \<noteq> None)"
    using assms
    by (auto simp: gst_rerun_sink_render_def is_encoded_format_def codec_of_name_def
        split: option.splits if_splits prod.splits)
  have b: "\<forall>path. LogStaticCodec path None \<in> set (calls priv') \<longrightarrow>
                 LogStaticCodec path None \<in> set (calls priv)"
    using assms
    by (auto simp: gst_rerun_sink_render_def is_encoded_format_def codec_of_name_def
        process_encoded_video_def Let_def log_call_def
        split: option.splits if_splits prod.splits)
  show ?thesis using a b by blast
qed

theorem render_codec_always_assigned_witness:
  "gst_rerun_sink_render False video_priv (host_buffer [9]) (Some h264_caps) =
     Some (GST_FLOW_OK,
       video_priv\<lparr>codec_sent := True,
         calls := [Spawn, LogStaticCodec ''camera/video'' (Some H264),
                   SetTimeTimestamp ''time'' 40, LogSample ''camera/video'' [9]]\<rparr>,
       [EncodedRoute]) \<and>
   codec_of_name (map_option struct_name (caps_structure h264_caps)) = Some H264"
proof -
  have r: "gst_rerun_sink_render False video_priv (host_buffer [9]) (Some h264_caps) =
     Some (GST_FLOW_OK,
       video_priv\<lparr>codec_sent := True,
         calls := [Spawn, LogStaticCodec ''camera/video'' (Some H264),
                   SetTimeTimestamp ''time'' 40, LogSample ''camera/video'' [9]]\<rparr>,
       [EncodedRoute])"
    by (simp add: gst_rerun_sink_render_def is_encoded_format_def process_encoded_video_def
        video_priv_def active_priv_def h264_caps_def host_buffer_def gst_structure_get_int_def
        codec_of_name_def log_call_def Let_def)
  have c: "codec_of_name (map_option struct_name (caps_structure h264_caps)) = Some H264"
    by (simp add: codec_of_name_def h264_caps_def)
  show ?thesis
    using render_codec_always_assigned [OF r] r c by simp
qed

end
